theory Spec2Isabelle
  imports Main "HOL-Library.Word"
begin

unbundle bit_operations_syntax

section \<open>GoMeshController: the wire protocol of the mesh controller driver\<close>

text \<open>
  The development follows the latest revision of the driver (package \<open>mesh\<close>, with the
  opcodes up to \<open>OpEvent\<close>). Go's \<open>byte\<close> is an 8-bit word and \<open>uint16\<close> a 16-bit
  word; a \<open>[]byte\<close> is a list of bytes. A run-time panic of Go is a value of type
  \<open>panic\<close>, and a function that can panic returns \<open>panic + 'a\<close>.
\<close>

type_synonym byte = "8 word"
type_synonym u16 = "16 word"

datatype panic = IndexOutOfRange | SliceBoundsOutOfRange

definition bind_panic :: "panic + 'a \<Rightarrow> ('a \<Rightarrow> panic + 'b) \<Rightarrow> panic + 'b" where
  "bind_panic m f = (case m of Inl p \<Rightarrow> Inl p | Inr x \<Rightarrow> f x)"

subsection \<open>Op codes\<close>

definition OpSetup :: byte where "OpSetup = 0x00"
definition OpSetupStatus :: byte where "OpSetupStatus = 0x01"
definition OpAddKey :: byte where "OpAddKey = 0x02"
definition OpAddKeyStatus :: byte where "OpAddKeyStatus = 0x03"
definition OpUnprovisionedBeacon :: byte where "OpUnprovisionedBeacon = 0x04"
definition OpProvision :: byte where "OpProvision = 0x05"
definition OpNodeAdded :: byte where "OpNodeAdded = 0x06"
definition OpConfigureNode :: byte where "OpConfigureNode = 0x07"
definition OpConfigureNodeStatus :: byte where "OpConfigureNodeStatus = 0x08"
definition OpSendMessage :: byte where "OpSendMessage = 0x09"
definition OpReset :: byte where "OpReset = 0x10"
definition OpReboot :: byte where "OpReboot = 0x11"
definition OpNodeReset :: byte where "OpNodeReset = 0x12"
definition OpState :: byte where "OpState = 0x13"
definition OpConfigureElem :: byte where "OpConfigureElem = 0x14"
definition OpConfigureElemStatus :: byte where "OpConfigureElemStatus = 0x15"
definition OpSendRecallMessage :: byte where "OpSendRecallMessage = 0x16"
definition OpSendStoreMessage :: byte where "OpSendStoreMessage = 0x17"
definition OpSendDeleteMessage :: byte where "OpSendDeleteMessage = 0x18"
definition OpSendBindMessage :: byte where "OpSendBindMessage = 0x19"
definition OpEvent :: byte where "OpEvent = 0x20"

lemmas opcode_defs =
  OpSetup_def OpSetupStatus_def OpAddKey_def OpAddKeyStatus_def OpUnprovisionedBeacon_def
  OpProvision_def OpNodeAdded_def OpConfigureNode_def OpConfigureNodeStatus_def
  OpSendMessage_def OpReset_def OpReboot_def OpNodeReset_def OpState_def OpConfigureElem_def
  OpConfigureElemStatus_def OpSendRecallMessage_def OpSendStoreMessage_def
  OpSendDeleteMessage_def OpSendBindMessage_def OpEvent_def

subsection \<open>Indexing and slicing a byte slice\<close>

text \<open>
  \<open>buf[i]\<close> panics unless \<open>i < len(buf)\<close>. \<open>buf[lo:hi]\<close> panics unless
  \<open>lo \<le> hi \<le> cap(buf)\<close>; every slice taken by the driver is of a buffer fresh from
  \<open>make([]byte, n)\<close>, whose capacity is its length.
\<close>

definition index :: "byte list \<Rightarrow> nat \<Rightarrow> panic + byte" where
  "index buf i = (if i < length buf then Inr (buf ! i) else Inl IndexOutOfRange)"

definition subslice :: "byte list \<Rightarrow> nat \<Rightarrow> nat \<Rightarrow> panic + byte list" where
  "subslice buf lo hi =
     (if hi \<le> length buf \<and> lo \<le> hi then Inr (take (hi - lo) (drop lo buf))
      else Inl SliceBoundsOutOfRange)"

subsection \<open>The little-endian codec of a 16-bit field\<close>

text \<open>
  \<open>binary.LittleEndian\<close> of Go's standard library:
  \<^verbatim>\<open>PutUint16(b, v): _ = b[1]; b[0] = byte(v); b[1] = byte(v >> 8)\<close> and
  \<^verbatim>\<open>Uint16(b): _ = b[1]; return uint16(b[0]) | uint16(b[1])<<8\<close>.
  The conversion \<open>byte(v)\<close> keeps the low eight bits (\<open>ucast\<close>).
\<close>

definition PutUint16 :: "byte list \<Rightarrow> u16 \<Rightarrow> panic + byte list" where
  "PutUint16 b v =
     (if 1 < length b then Inr (b[0 := ucast v, 1 := ucast (drop_bit 8 v)])
      else Inl IndexOutOfRange)"

definition Uint16 :: "byte list \<Rightarrow> panic + u16" where
  "Uint16 b =
     (if 1 < length b then Inr (ucast (b ! 0) OR push_bit 8 (ucast (b ! 1)))
      else Inl IndexOutOfRange)"

text \<open>\<open>toByteSlice\<close>: a fresh two-byte slice, filled by \<open>PutUint16\<close>.\<close>

definition toByteSlice :: "u16 \<Rightarrow> panic + byte list" where
  "toByteSlice imput = PutUint16 [0x00, 0x00] imput"

subsection \<open>The outbound endpoint and \<open>WriteData\<close>\<close>

text \<open>
  The USB transport (package \<open>gousb\<close>) is outside the repository, so it is a parameter of
  the model. The outbound endpoint is the outcome of every future transfer
  (\<open>wr_script u k\<close> is the error of the \<open>k\<close>-th call of \<open>epOut.Write\<close>, \<open>None\<close>
  for \<open>nil\<close>), the number of calls made so far, and the log of what the driver did on
  it: the buffers it submitted and the times it slept, in milliseconds.
\<close>

datatype usb_error = ErrorOverflow | TransferNoDevice | ErrorIO | ErrorNoDevice

datatype io = Written "byte list" | Slept nat

record usb =
  wr_script :: "nat \<Rightarrow> usb_error option"
  wr_count :: nat
  io_log :: "io list"

definition epOut_Write :: "byte list \<Rightarrow> usb \<Rightarrow> usb_error option \<times> usb" where
  "epOut_Write data u =
     (wr_script u (wr_count u),
      u\<lparr>wr_count := wr_count u + 1, io_log := io_log u @ [Written data]\<rparr>)"

definition time_Sleep :: "nat \<Rightarrow> usb \<Rightarrow> usb" where
  "time_Sleep ms u = u\<lparr>io_log := io_log u @ [Slept ms]\<rparr>"

text \<open>\<open>WriteData\<close> returns Go's \<open>error\<close>: \<open>None\<close> for \<open>nil\<close>, or the message.\<close>

definition WriteData :: "byte list \<Rightarrow> usb \<Rightarrow> string option \<times> usb" where
  "WriteData data u =
     (case epOut_Write data u of
        (None, u1) \<Rightarrow> (None, u1)
      | (Some err, u1) \<Rightarrow>
          (case epOut_Write data (time_Sleep 200 u1) of
             (Some err2, u2) \<Rightarrow> (Some ''Write failed'', u2)
           | (None, u2) \<Rightarrow> (None, u2)))"

subsection \<open>The commands\<close>

text \<open>
  Each command builds \<open>parms\<close> by appending the fields to the opcode byte, in the order
  of its statements, and returns what \<open>WriteData parms\<close> returns.
\<close>

definition ResetNode :: "u16 \<Rightarrow> usb \<Rightarrow> panic + (string option \<times> usb)" where
  "ResetNode addr u =
     bind_panic (toByteSlice addr) (\<lambda>a.
       Inr (WriteData ([OpNodeReset] @ a) u))"

definition Reboot :: "usb \<Rightarrow> panic + (string option \<times> usb)" where
  "Reboot u = Inr (WriteData [OpReboot] u)"

definition Reset :: "usb \<Rightarrow> panic + (string option \<times> usb)" where
  "Reset u = Inr (WriteData [OpReset] u)"

definition SendMessage :: "byte \<Rightarrow> u16 \<Rightarrow> u16 \<Rightarrow> usb \<Rightarrow> panic + (string option \<times> usb)" where
  "SendMessage state addr appIdx u =
     bind_panic (toByteSlice addr) (\<lambda>a.
     bind_panic (toByteSlice appIdx) (\<lambda>i.
       Inr (WriteData ((([OpSendMessage] @ [state]) @ a) @ i) u)))"

definition SendRecallMessage :: "u16 \<Rightarrow> u16 \<Rightarrow> u16 \<Rightarrow> usb \<Rightarrow> panic + (string option \<times> usb)" where
  "SendRecallMessage sceneNumber addr appIdx u =
     bind_panic (toByteSlice sceneNumber) (\<lambda>s.
     bind_panic (toByteSlice addr) (\<lambda>a.
     bind_panic (toByteSlice appIdx) (\<lambda>i.
       Inr (WriteData ((([OpSendRecallMessage] @ s) @ a) @ i) u))))"

definition SendStoreMessage :: "u16 \<Rightarrow> u16 \<Rightarrow> u16 \<Rightarrow> usb \<Rightarrow> panic + (string option \<times> usb)" where
  "SendStoreMessage sceneNumber addr appIdx u =
     bind_panic (toByteSlice sceneNumber) (\<lambda>s.
     bind_panic (toByteSlice addr) (\<lambda>a.
     bind_panic (toByteSlice appIdx) (\<lambda>i.
       Inr (WriteData ((([OpSendStoreMessage] @ s) @ a) @ i) u))))"

definition SendDeleteMessage :: "u16 \<Rightarrow> u16 \<Rightarrow> u16 \<Rightarrow> usb \<Rightarrow> panic + (string option \<times> usb)" where
  "SendDeleteMessage sceneNumber addr appIdx u =
     bind_panic (toByteSlice sceneNumber) (\<lambda>s.
     bind_panic (toByteSlice addr) (\<lambda>a.
     bind_panic (toByteSlice appIdx) (\<lambda>i.
       Inr (WriteData ((([OpSendDeleteMessage] @ s) @ a) @ i) u))))"

definition SendBindMessage :: "u16 \<Rightarrow> u16 \<Rightarrow> u16 \<Rightarrow> usb \<Rightarrow> panic + (string option \<times> usb)" where
  "SendBindMessage sceneNumber addr appIdx u =
     bind_panic (toByteSlice sceneNumber) (\<lambda>s.
     bind_panic (toByteSlice addr) (\<lambda>a.
     bind_panic (toByteSlice appIdx) (\<lambda>i.
       Inr (WriteData ((([OpSendBindMessage] @ s) @ a) @ i) u))))"

definition ConfigureNode :: "u16 \<Rightarrow> u16 \<Rightarrow> usb \<Rightarrow> panic + (string option \<times> usb)" where
  "ConfigureNode addr appIdx u =
     bind_panic (toByteSlice addr) (\<lambda>a.
     bind_panic (toByteSlice appIdx) (\<lambda>i.
       Inr (WriteData (([OpConfigureNode] @ a) @ i) u)))"

definition ConfigureElem ::
    "u16 \<Rightarrow> u16 \<Rightarrow> u16 \<Rightarrow> u16 \<Rightarrow> usb \<Rightarrow> panic + (string option \<times> usb)" where
  "ConfigureElem groupAddr nodeAddr elemAddr appIdx u =
     bind_panic (toByteSlice groupAddr) (\<lambda>g.
     bind_panic (toByteSlice nodeAddr) (\<lambda>n.
     bind_panic (toByteSlice elemAddr) (\<lambda>e.
     bind_panic (toByteSlice appIdx) (\<lambda>i.
       Inr (WriteData (((([OpConfigureElem] @ g) @ n) @ e) @ i) u)))))"

definition Provision :: "byte list \<Rightarrow> usb \<Rightarrow> panic + (string option \<times> usb)" where
  "Provision uuid u = Inr (WriteData ([OpProvision] @ uuid) u)"

definition AddKey :: "u16 \<Rightarrow> usb \<Rightarrow> panic + (string option \<times> usb)" where
  "AddKey appIdx u =
     bind_panic (toByteSlice appIdx) (\<lambda>i.
       Inr (WriteData ([OpAddKey] @ i) u))"

definition Setup :: "usb \<Rightarrow> panic + (string option \<times> usb)" where
  "Setup u = Inr (WriteData [OpSetup] u)"

subsection \<open>The dispatcher: \<open>Read\<close>\<close>

text \<open>
  The six handlers are parameters of \<open>Read\<close>; they are taken to be functions that are
  not \<open>nil\<close> and that return. What \<open>Read\<close> does with them is the sequence of its calls,
  each with the arguments it was given. Only \<open>onUnprovisionedBeacon\<close> receives a slice
  of the buffer, \<open>buf[1:17]\<close>, through which \<open>buf[0]\<close> cannot be reached, so no
  handler changes the opcode byte the later tests read.
\<close>

datatype call =
    OnSetupStatus
  | OnAddKeyStatus u16
  | OnUnprovisionedBeacon "byte list"
  | OnNodeAdded u16
  | OnState u16 byte
  | OnEvent u16

text \<open>
  One call of \<open>epIn.Read\<close> is what the transport delivers: the bytes received and the
  error it returns (\<open>None\<close> for \<open>nil\<close>). The bytes are copied to the front of the
  buffer, as many as fit, and the rest of the buffer keeps its contents.
\<close>

record rx =
  rx_data :: "byte list"
  rx_err :: "usb_error option"

definition epIn_Read :: "byte list \<Rightarrow> rx \<Rightarrow> byte list" where
  "epIn_Read buf r = take (length buf) (rx_data r) @ drop (length (rx_data r)) buf"

text \<open>
  \<open>receive\<close> is the head of the loop body: a fresh zeroed buffer of \<open>MaxPacketSize\<close>
  bytes, passed to \<open>epIn.Read\<close>, whose two results (count and error) are dropped.
\<close>

definition receive :: "nat \<Rightarrow> rx \<Rightarrow> byte list" where
  "receive MaxPacketSize r = epIn_Read (replicate MaxPacketSize 0x00) r"

text \<open>
  \<open>dispatch\<close> is the rest of the loop body: six \<open>if\<close> statements one after the other,
  each reading \<open>buf[0]\<close> again. \<open>tr\<close> is the sequence of handler calls made so far.
\<close>

definition dispatch :: "byte list \<Rightarrow> call list \<Rightarrow> panic + call list" where
  "dispatch buf tr0 =
     bind_panic (index buf 0) (\<lambda>b1.
     bind_panic (if b1 = OpSetupStatus then Inr (tr0 @ [OnSetupStatus]) else Inr tr0) (\<lambda>tr1.
     bind_panic (index buf 0) (\<lambda>b2.
     bind_panic (if b2 = OpAddKeyStatus
                 then bind_panic (subslice buf 1 3) (\<lambda>s.
                      bind_panic (Uint16 s) (\<lambda>appIdx. Inr (tr1 @ [OnAddKeyStatus appIdx])))
                 else Inr tr1) (\<lambda>tr2.
     bind_panic (index buf 0) (\<lambda>b3.
     bind_panic (if b3 = OpUnprovisionedBeacon
                 then bind_panic (subslice buf 1 17) (\<lambda>uuid. Inr (tr2 @ [OnUnprovisionedBeacon uuid]))
                 else Inr tr2) (\<lambda>tr3.
     bind_panic (index buf 0) (\<lambda>b4.
     bind_panic (if b4 = OpNodeAdded
                 then bind_panic (subslice buf 1 3) (\<lambda>s.
                      bind_panic (Uint16 s) (\<lambda>addr. Inr (tr3 @ [OnNodeAdded addr])))
                 else Inr tr3) (\<lambda>tr4.
     bind_panic (index buf 0) (\<lambda>b5.
     bind_panic (if b5 = OpState
                 then bind_panic (subslice buf 1 3) (\<lambda>s.
                      bind_panic (Uint16 s) (\<lambda>addr.
                      bind_panic (index buf 3) (\<lambda>state. Inr (tr4 @ [OnState addr state]))))
                 else Inr tr4) (\<lambda>tr5.
     bind_panic (index buf 0) (\<lambda>b6.
       if b6 = OpEvent
       then bind_panic (subslice buf 1 3) (\<lambda>s.
            bind_panic (Uint16 s) (\<lambda>addr. Inr (tr5 @ [OnEvent addr])))
       else Inr tr5)))))))))))"

definition Read_iter :: "nat \<Rightarrow> rx \<Rightarrow> call list \<Rightarrow> panic + call list" where
  "Read_iter MaxPacketSize r tr = dispatch (receive MaxPacketSize r) tr"

text \<open>
  \<open>Read\<close> is \<open>for { ... }\<close> with no \<open>break\<close> and no \<open>return\<close>: it is run on the list
  of what the transport delivers, one element for each call of \<open>epIn.Read\<close>. When the
  list is used up the loop is blocked in the next \<open>epIn.Read\<close>: \<open>Listening\<close>, with the
  handler calls made so far. A panic ends the run. \<open>Returned\<close> stands for the declared
  result of type \<open>error\<close>.
\<close>

datatype outcome = Listening "call list" | Panicked panic | Returned "string option" "call list"

fun Read :: "nat \<Rightarrow> rx list \<Rightarrow> call list \<Rightarrow> outcome" where
  "Read MaxPacketSize [] tr = Listening tr"
| "Read MaxPacketSize (r # rs) tr =
     (case Read_iter MaxPacketSize r tr of
        Inl p \<Rightarrow> Panicked p
      | Inr tr' \<Rightarrow> Read MaxPacketSize rs tr')"

subsection \<open>The wire table, as the specification words it\<close>

text \<open>
  For the refinement statements, the specification's side is defined on its own, by
  arithmetic: the value of a little-endian byte pair, the two bytes of a 16-bit value,
  the frame of each inbound event (opcode, then the fields of the wire table), and the
  handler call that the dispatch step assigns to a buffer, by its opcode byte.
\<close>

definition le16 :: "byte \<Rightarrow> byte \<Rightarrow> u16" where
  "le16 b0 b1 = word_of_nat (unat b0 + 256 * unat b1)"

definition le_bytes :: "u16 \<Rightarrow> byte list" where
  "le_bytes v = [word_of_nat (unat v mod 256), word_of_nat (unat v div 256)]"

fun wire_frame :: "call \<Rightarrow> byte list" where
  "wire_frame OnSetupStatus = [0x01]"
| "wire_frame (OnAddKeyStatus appIdx) = 0x03 # le_bytes appIdx"
| "wire_frame (OnUnprovisionedBeacon uuid) = 0x04 # uuid"
| "wire_frame (OnNodeAdded addr) = 0x06 # le_bytes addr"
| "wire_frame (OnState addr state) = 0x13 # le_bytes addr @ [state]"
| "wire_frame (OnEvent addr) = 0x20 # le_bytes addr"

text \<open>The fields are valid when the uuid of a beacon has its 16 bytes.\<close>

fun valid_fields :: "call \<Rightarrow> bool" where
  "valid_fields (OnUnprovisionedBeacon uuid) = (length uuid = 16)"
| "valid_fields c = True"

definition spec_dispatch :: "byte list \<Rightarrow> call list" where
  "spec_dispatch buf =
     (if buf ! 0 = 0x01 then [OnSetupStatus]
      else if buf ! 0 = 0x03 then [OnAddKeyStatus (le16 (buf ! 1) (buf ! 2))]
      else if buf ! 0 = 0x04 then [OnUnprovisionedBeacon (take 16 (drop 1 buf))]
      else if buf ! 0 = 0x06 then [OnNodeAdded (le16 (buf ! 1) (buf ! 2))]
      else if buf ! 0 = 0x13 then [OnState (le16 (buf ! 1) (buf ! 2)) (buf ! 3)]
      else if buf ! 0 = 0x20 then [OnEvent (le16 (buf ! 1) (buf ! 2))]
      else [])"

text \<open>
  The size of the frame that an opcode byte announces to the dispatcher: 1 plus the widths
  of the fields of the inbound opcodes that carry fields, and the opcode byte alone for
  every other value.
\<close>

definition frame_size :: "byte \<Rightarrow> nat" where
  "frame_size op =
     (if op = 0x03 then 1 + 2
      else if op = 0x04 then 1 + 16
      else if op = 0x06 then 1 + 2
      else if op = 0x13 then 1 + 2 + 1
      else if op = 0x20 then 1 + 2
      else 1)"

text \<open>The known opcodes are the constants of the driver's \<open>const\<close> block.\<close>

definition known_opcodes :: "byte list" where
  "known_opcodes =
     [OpSetup, OpSetupStatus, OpAddKey, OpAddKeyStatus, OpUnprovisionedBeacon, OpProvision,
      OpNodeAdded, OpConfigureNode, OpConfigureNodeStatus, OpSendMessage, OpReset, OpReboot,
      OpNodeReset, OpState, OpConfigureElem, OpConfigureElemStatus, OpSendRecallMessage,
      OpSendStoreMessage, OpSendDeleteMessage, OpSendBindMessage, OpEvent]"

section \<open>Properties\<close>

subsection \<open>The 16-bit codec\<close>

lemma toByteSlice_bytes: "toByteSlice v = Inr [ucast v, ucast (drop_bit 8 v)]"
  by (simp add: toByteSlice_def PutUint16_def)

lemma mask_255: "(255 :: u16) = mask 8"
  by (simp add: mask_eq_exp_minus_1)

lemma low_byte_mask: "(ucast (v AND 0xFF) :: byte) = ucast (v :: u16)"
  unfolding mask_255 by (rule bit_word_eqI) (auto simp: bit_simps)

lemma high_byte_mask: "(ucast (drop_bit 8 v AND 0xFF) :: byte) = ucast (drop_bit 8 (v :: u16))"
  unfolding mask_255 by (rule bit_word_eqI) (auto simp: bit_simps)

lemma unat_low_byte: "unat (ucast (v :: u16) :: byte) = unat v mod 256"
  by (simp add: unsigned_ucast_eq take_bit_eq_mod)

lemma unat_high_byte: "unat (ucast (drop_bit 8 (v :: u16)) :: byte) = unat v div 256"
proof -
  have "unat v < 65536"
    using unsigned_less [of v, where 'a = nat] by simp
  then have "unat v div 256 < 256"
    by simp
  moreover have "unat (drop_bit 8 v) = unat v div 256"
    by (simp add: unat_drop_bit_eq) (simp add: drop_bit_eq_div)
  ultimately show ?thesis
    by (simp add: unsigned_ucast_eq take_bit_eq_mod)
qed

text \<open>
  C4. For every 16-bit value \<open>v\<close>, \<open>toByteSlice v\<close> returns (it cannot panic) exactly the
  two bytes \<open>[v & 0xFF, (v >> 8) & 0xFF]\<close>, low byte first: as numbers, \<open>v mod 256\<close>
  followed by \<open>v div 256\<close>.
\<close>

theorem toByteSlice_little_endian:
  "toByteSlice v = Inr [ucast (v AND 0xFF), ucast (drop_bit 8 v AND 0xFF)]
   \<and> (\<exists>lo hi. toByteSlice v = Inr [lo, hi] \<and> unat lo = unat v mod 256 \<and> unat hi = unat v div 256)"
proof (intro conjI exI)
  show "toByteSlice v = Inr [ucast (v AND 0xFF), ucast (drop_bit 8 v AND 0xFF)]"
    by (simp only: toByteSlice_bytes low_byte_mask high_byte_mask)
  show "toByteSlice v = Inr [ucast v, ucast (drop_bit 8 v)]"
    by (rule toByteSlice_bytes)
  show "unat (ucast v :: byte) = unat v mod 256"
    by (rule unat_low_byte)
  show "unat (ucast (drop_bit 8 v) :: byte) = unat v div 256"
    by (rule unat_high_byte)
qed


subsection \<open>The write path\<close>

lemma WriteData_first_ok:
  "wr_script u (wr_count u) = None \<Longrightarrow>
   WriteData data u =
     (None, u\<lparr>wr_count := wr_count u + 1, io_log := io_log u @ [Written data]\<rparr>)"
  by (simp add: WriteData_def epOut_Write_def)

lemma WriteData_retry_ok:
  "wr_script u (wr_count u) \<noteq> None \<Longrightarrow> wr_script u (wr_count u + 1) = None \<Longrightarrow>
   WriteData data u =
     (None, u\<lparr>wr_count := wr_count u + 2,
              io_log := io_log u @ [Written data, Slept 200, Written data]\<rparr>)"
  by (auto simp: WriteData_def epOut_Write_def time_Sleep_def)

lemma WriteData_retry_fails:
  "wr_script u (wr_count u) \<noteq> None \<Longrightarrow> wr_script u (wr_count u + 1) \<noteq> None \<Longrightarrow>
   WriteData data u =
     (Some ''Write failed'', u\<lparr>wr_count := wr_count u + 2,
              io_log := io_log u @ [Written data, Slept 200, Written data]\<rparr>)"
  by (auto simp: WriteData_def epOut_Write_def time_Sleep_def)

text \<open>
  C2. \<open>WriteData\<close> on any frame and any endpoint: when the first transfer succeeds it
  returns \<open>nil\<close> after exactly one write attempt; when the first transfer fails it sleeps
  200 ms and writes the same frame once more, returning \<open>nil\<close> when that transfer
  succeeds and the error \<open>Write failed\<close> when it fails too, after exactly two write
  attempts in both cases. The log shows every attempt and the sleep between them.
\<close>

theorem WriteData_retry_once:
  "(wr_script u (wr_count u) = None \<longrightarrow>
      WriteData data u =
        (None, u\<lparr>wr_count := wr_count u + 1, io_log := io_log u @ [Written data]\<rparr>))
   \<and> (wr_script u (wr_count u) \<noteq> None \<and> wr_script u (wr_count u + 1) = None \<longrightarrow>
      WriteData data u =
        (None, u\<lparr>wr_count := wr_count u + 2,
                 io_log := io_log u @ [Written data, Slept 200, Written data]\<rparr>))
   \<and> (wr_script u (wr_count u) \<noteq> None \<and> wr_script u (wr_count u + 1) \<noteq> None \<longrightarrow>
      WriteData data u =
        (Some ''Write failed'', u\<lparr>wr_count := wr_count u + 2,
                 io_log := io_log u @ [Written data, Slept 200, Written data]\<rparr>))"
  using WriteData_first_ok WriteData_retry_ok WriteData_retry_fails by blast

theorem WriteData_retry_once_witness:
  "wr_script \<lparr>wr_script = (\<lambda>k. None), wr_count = 0, io_log = []\<rparr> 0 = None
   \<and> WriteData [0x11] \<lparr>wr_script = (\<lambda>k. None), wr_count = 0, io_log = []\<rparr> =
       (None, \<lparr>wr_script = (\<lambda>k. None), wr_count = 1, io_log = [Written [0x11]]\<rparr>)
   \<and> wr_script \<lparr>wr_script = (\<lambda>k. if k = 0 then Some ErrorIO else None),
                 wr_count = 0, io_log = []\<rparr> 0 \<noteq> None
   \<and> wr_script \<lparr>wr_script = (\<lambda>k. if k = 0 then Some ErrorIO else None),
                 wr_count = 0, io_log = []\<rparr> 1 = None
   \<and> WriteData [0x11] \<lparr>wr_script = (\<lambda>k. if k = 0 then Some ErrorIO else None),
                         wr_count = 0, io_log = []\<rparr> =
       (None, \<lparr>wr_script = (\<lambda>k. if k = 0 then Some ErrorIO else None), wr_count = 2,
               io_log = [Written [0x11], Slept 200, Written [0x11]]\<rparr>)
   \<and> wr_script \<lparr>wr_script = (\<lambda>k. Some ErrorIO), wr_count = 0, io_log = []\<rparr> 0 \<noteq> None
   \<and> wr_script \<lparr>wr_script = (\<lambda>k. Some ErrorIO), wr_count = 0, io_log = []\<rparr> 1 \<noteq> None
   \<and> WriteData [0x11] \<lparr>wr_script = (\<lambda>k. Some ErrorIO), wr_count = 0, io_log = []\<rparr> =
       (Some ''Write failed'', \<lparr>wr_script = (\<lambda>k. Some ErrorIO), wr_count = 2,
               io_log = [Written [0x11], Slept 200, Written [0x11]]\<rparr>)"
  using
    WriteData_retry_once [of "\<lparr>wr_script = (\<lambda>k. None), wr_count = 0, io_log = []\<rparr>" "[0x11]"]
    WriteData_retry_once [of "\<lparr>wr_script = (\<lambda>k. if k = 0 then Some ErrorIO else None),
                               wr_count = 0, io_log = []\<rparr>" "[0x11]"]
    WriteData_retry_once [of "\<lparr>wr_script = (\<lambda>k. Some ErrorIO), wr_count = 0, io_log = []\<rparr>" "[0x11]"]
  by simp

subsection \<open>The frames of the commands\<close>

lemma bind_panic_Inr: "bind_panic (Inr x) f = f x"
  by (simp add: bind_panic_def)

lemma toByteSlice_masked:
  "toByteSlice v = Inr [ucast (v AND 0xFF), ucast (drop_bit 8 v AND 0xFF)]"
  by (simp only: toByteSlice_bytes low_byte_mask high_byte_mask)

lemmas command_defs =
  Setup_def AddKey_def Provision_def ConfigureNode_def SendMessage_def Reset_def Reboot_def
  ResetNode_def ConfigureElem_def SendRecallMessage_def SendStoreMessage_def
  SendDeleteMessage_def SendBindMessage_def

text \<open>
  C3. Each of the thirteen commands hands \<open>WriteData\<close> a frame \<open>f\<close> that is its opcode
  byte followed by its fields in the order of the wire table, a 16-bit field as its low
  byte then its high byte, and whose length is 1 plus the widths of the fields. For
  \<open>SendMessage(0x00, 0x000A, 0x0000)\<close> the frame is \<open>[0x09, 0x00, 0x0A, 0x00, 0x00, 0x00]\<close>;
  for \<open>Provision\<close> with the 16-byte uuid \<open>19 8a 1d 0d 7e d1 00 ... 00\<close> it is the 17
  bytes \<open>0x05\<close> followed by the uuid.
\<close>

theorem command_frames:
  "(\<exists>f. Setup u = Inr (WriteData f u)
        \<and> f = [0x00]
        \<and> length f = 1)
   \<and> (\<exists>f. AddKey appIdx u = Inr (WriteData f u)
        \<and> f = [0x02,
               ucast (appIdx AND 0xFF), ucast (drop_bit 8 appIdx AND 0xFF)]
        \<and> length f = 1 + 2)
   \<and> (\<exists>f. Provision uuid u = Inr (WriteData f u)
        \<and> f = 0x05 # uuid
        \<and> length f = 1 + length uuid)
   \<and> (\<exists>f. ConfigureNode addr appIdx u = Inr (WriteData f u)
        \<and> f = [0x07,
               ucast (addr AND 0xFF), ucast (drop_bit 8 addr AND 0xFF),
               ucast (appIdx AND 0xFF), ucast (drop_bit 8 appIdx AND 0xFF)]
        \<and> length f = 1 + (2 + 2))
   \<and> (\<exists>f. SendMessage state addr appIdx u = Inr (WriteData f u)
        \<and> f = [0x09,
               state,
               ucast (addr AND 0xFF), ucast (drop_bit 8 addr AND 0xFF),
               ucast (appIdx AND 0xFF), ucast (drop_bit 8 appIdx AND 0xFF)]
        \<and> length f = 1 + (1 + 2 + 2))
   \<and> (\<exists>f. Reset u = Inr (WriteData f u)
        \<and> f = [0x10]
        \<and> length f = 1)
   \<and> (\<exists>f. Reboot u = Inr (WriteData f u)
        \<and> f = [0x11]
        \<and> length f = 1)
   \<and> (\<exists>f. ResetNode addr u = Inr (WriteData f u)
        \<and> f = [0x12,
               ucast (addr AND 0xFF), ucast (drop_bit 8 addr AND 0xFF)]
        \<and> length f = 1 + 2)
   \<and> (\<exists>f. ConfigureElem groupAddr nodeAddr elemAddr appIdx u = Inr (WriteData f u)
        \<and> f = [0x14,
               ucast (groupAddr AND 0xFF), ucast (drop_bit 8 groupAddr AND 0xFF),
               ucast (nodeAddr AND 0xFF), ucast (drop_bit 8 nodeAddr AND 0xFF),
               ucast (elemAddr AND 0xFF), ucast (drop_bit 8 elemAddr AND 0xFF),
               ucast (appIdx AND 0xFF), ucast (drop_bit 8 appIdx AND 0xFF)]
        \<and> length f = 1 + (2 + 2 + 2 + 2))
   \<and> (\<exists>f. SendRecallMessage sceneNumber addr appIdx u = Inr (WriteData f u)
        \<and> f = [0x16,
               ucast (sceneNumber AND 0xFF), ucast (drop_bit 8 sceneNumber AND 0xFF),
               ucast (addr AND 0xFF), ucast (drop_bit 8 addr AND 0xFF),
               ucast (appIdx AND 0xFF), ucast (drop_bit 8 appIdx AND 0xFF)]
        \<and> length f = 1 + (2 + 2 + 2))
   \<and> (\<exists>f. SendStoreMessage sceneNumber addr appIdx u = Inr (WriteData f u)
        \<and> f = [0x17,
               ucast (sceneNumber AND 0xFF), ucast (drop_bit 8 sceneNumber AND 0xFF),
               ucast (addr AND 0xFF), ucast (drop_bit 8 addr AND 0xFF),
               ucast (appIdx AND 0xFF), ucast (drop_bit 8 appIdx AND 0xFF)]
        \<and> length f = 1 + (2 + 2 + 2))
   \<and> (\<exists>f. SendDeleteMessage sceneNumber addr appIdx u = Inr (WriteData f u)
        \<and> f = [0x18,
               ucast (sceneNumber AND 0xFF), ucast (drop_bit 8 sceneNumber AND 0xFF),
               ucast (addr AND 0xFF), ucast (drop_bit 8 addr AND 0xFF),
               ucast (appIdx AND 0xFF), ucast (drop_bit 8 appIdx AND 0xFF)]
        \<and> length f = 1 + (2 + 2 + 2))
   \<and> (\<exists>f. SendBindMessage sceneNumber addr appIdx u = Inr (WriteData f u)
        \<and> f = [0x19,
               ucast (sceneNumber AND 0xFF), ucast (drop_bit 8 sceneNumber AND 0xFF),
               ucast (addr AND 0xFF), ucast (drop_bit 8 addr AND 0xFF),
               ucast (appIdx AND 0xFF), ucast (drop_bit 8 appIdx AND 0xFF)]
        \<and> length f = 1 + (2 + 2 + 2))
   \<and> SendMessage 0x00 0x000A 0x0000 u = Inr (WriteData [0x09, 0x00, 0x0A, 0x00, 0x00, 0x00] u)
   \<and> Provision [0x19, 0x8a, 0x1d, 0x0d, 0x7e, 0xd1, 0, 0, 0, 0, 0, 0, 0, 0, 0, 0] u =
       Inr (WriteData [0x05, 0x19, 0x8a, 0x1d, 0x0d, 0x7e, 0xd1, 0, 0, 0, 0, 0, 0, 0, 0, 0, 0] u)
   \<and> length [0x05, 0x19, 0x8a, 0x1d, 0x0d, 0x7e, 0xd1, 0, 0, 0, 0, 0, 0, 0, 0, 0, 0 :: byte] = 17"
  by (simp add: command_defs opcode_defs bind_panic_Inr toByteSlice_masked)

lemma WriteData_log:
  "\<exists>rest. io_log (snd (WriteData data u)) = io_log u @ Written data # rest"
  by (auto simp: WriteData_def epOut_Write_def time_Sleep_def split: option.splits)

text \<open>
  C10. \<open>Provision\<close> does not look at the length of \<open>uuid\<close>: for every byte slice, the
  empty one and those shorter or longer than 16 bytes included, it hands \<open>WriteData\<close>
  the frame \<open>0x05\<close> followed by \<open>uuid\<close> as it is, of length \<open>1 + len(uuid)\<close>, and
  that frame is the first buffer submitted to the endpoint.
\<close>

theorem Provision_any_uuid:
  "Provision uuid u = Inr (WriteData (OpProvision # uuid) u)
   \<and> OpProvision = 0x05
   \<and> length (OpProvision # uuid) = 1 + length uuid
   \<and> (\<exists>err u' rest. Provision uuid u = Inr (err, u')
         \<and> io_log u' = io_log u @ Written (OpProvision # uuid) # rest)
   \<and> Provision [] u = Inr (WriteData [0x05] u)"
proof -
  obtain rest where "io_log (snd (WriteData (OpProvision # uuid) u))
      = io_log u @ Written (OpProvision # uuid) # rest"
    using WriteData_log by blast
  then have "\<exists>err u' rest. Provision uuid u = Inr (err, u')
         \<and> io_log u' = io_log u @ Written (OpProvision # uuid) # rest"
    by (cases "WriteData (OpProvision # uuid) u") (auto simp: Provision_def)
  then show ?thesis
    by (simp add: Provision_def OpProvision_def)
qed

subsection \<open>Reading a 16-bit field\<close>

lemma word_of_nat_unat_self: "word_of_nat (unat w) = (w :: 'a::len word)"
  by simp

lemma or_is_add:
  "(ucast (b0 :: byte) :: u16) OR push_bit 8 (ucast (b1 :: byte)) =
   ucast b0 + push_bit 8 (ucast b1)"
  by (rule disjunctive_add [symmetric]) (auto simp: bit_simps dest: bit_imp_le_length)

lemma Uint16_le16: "Uint16 [b0, b1] = Inr (le16 b0 b1)"
proof -
  have "le16 b0 b1 = (ucast b0 :: u16) + push_bit 8 (ucast b1)"
    by (simp add: le16_def of_nat_unat push_bit_eq_mult)
  then show ?thesis
    by (simp add: Uint16_def or_is_add)
qed

lemma le_bytes_code: "le_bytes v = [ucast v, ucast (drop_bit 8 v)]"
proof -
  have "word_of_nat (unat v mod 256) = (ucast v :: byte)"
    using unat_low_byte [of v, symmetric] by (simp only: word_of_nat_unat_self)
  moreover have "word_of_nat (unat v div 256) = (ucast (drop_bit 8 v) :: byte)"
    using unat_high_byte [of v, symmetric] by (simp only: word_of_nat_unat_self)
  ultimately show ?thesis
    by (simp add: le_bytes_def)
qed

lemma toByteSlice_le_bytes: "toByteSlice v = Inr (le_bytes v)"
  by (simp only: toByteSlice_bytes le_bytes_code)

lemma Uint16_le_bytes: "Uint16 (le_bytes v) = Inr v"
proof -
  have "unat (ucast v :: byte) + 256 * unat (ucast (drop_bit 8 v) :: byte) = unat v"
    by (simp only: unat_high_byte) (simp add: unat_low_byte)
  then have "le16 (ucast v) (ucast (drop_bit 8 v)) = v"
    by (simp only: le16_def word_of_nat_unat_self)
  then show ?thesis
    by (simp only: le_bytes_code Uint16_le16)
qed

lemma low_of_pair:
  "(ucast ((ucast (b0 :: byte) :: u16) OR push_bit 8 (ucast (b1 :: byte))) :: byte) = b0"
  by (rule bit_word_eqI) (auto simp: bit_simps dest: bit_imp_le_length)

lemma high_of_pair:
  "(ucast (drop_bit 8 ((ucast (b0 :: byte) :: u16) OR push_bit 8 (ucast (b1 :: byte)))) :: byte)
   = b1"
  by (rule bit_word_eqI) (auto simp: bit_simps dest: bit_imp_le_length)

lemma toByteSlice_Uint16: "bind_panic (Uint16 [b0, b1]) toByteSlice = Inr [b0, b1]"
proof -
  have "Uint16 [b0, b1] = Inr (ucast b0 OR push_bit 8 (ucast b1))"
    by (simp add: Uint16_def)
  then show ?thesis
    by (simp only: bind_panic_Inr toByteSlice_bytes low_of_pair high_of_pair)
qed

subsection \<open>One iteration of the dispatcher\<close>

lemma length_receive: "length (receive mps r) = mps"
  by (simp add: receive_def epIn_Read_def)

lemma subslice_1_3: "3 \<le> length buf \<Longrightarrow> subslice buf 1 3 = Inr [buf ! 1, buf ! 2]"
proof -
  assume "3 \<le> length buf"
  then obtain b0 b1 b2 rest where "buf = b0 # b1 # b2 # rest"
    by (metis (no_types, opaque_lifting) Suc_le_length_iff numeral_3_eq_3)
  then show ?thesis
    by (simp add: subslice_def)
qed

lemma subslice_1_17: "17 \<le> length buf \<Longrightarrow> subslice buf 1 17 = Inr (take 16 (drop 1 buf))"
  by (simp add: subslice_def)

lemma frame_size_pos: "0 < frame_size op"
  by (simp add: frame_size_def)

lemma frame_size_le_17: "frame_size op \<le> 17"
  by (simp add: frame_size_def)

text \<open>
  On a buffer that holds the whole frame its opcode byte announces, the six tests of the
  loop body make the call that the dispatch table assigns to the buffer, or none.
\<close>

lemma dispatch_frame:
  assumes "frame_size (buf ! 0) \<le> length buf"
  shows "dispatch buf tr = Inr (tr @ spec_dispatch buf)"
proof -
  have "0 < length buf"
    using assms frame_size_pos [of "buf ! 0"] by linarith
  then have i0: "index buf 0 = Inr (buf ! 0)"
    by (simp add: index_def)
  consider (addkey) "buf ! 0 = 0x03" | (beacon) "buf ! 0 = 0x04" | (added) "buf ! 0 = 0x06"
    | (state) "buf ! 0 = 0x13" | (event) "buf ! 0 = 0x20"
    | (other) "buf ! 0 \<notin> {0x03, 0x04, 0x06, 0x13, 0x20}"
    by blast
  then show ?thesis
  proof cases
    case addkey
    then have "3 \<le> length buf"
      using assms by (simp add: frame_size_def)
    then have s3: "subslice buf 1 3 = Inr [buf ! 1, buf ! 2]"
      by (rule subslice_1_3)
    show ?thesis
      unfolding dispatch_def i0 s3
      by (simp add: addkey bind_panic_Inr Uint16_le16 spec_dispatch_def opcode_defs)
  next
    case beacon
    then have "17 \<le> length buf"
      using assms by (simp add: frame_size_def)
    then have s17: "subslice buf 1 17 = Inr (take 16 (drop 1 buf))"
      by (rule subslice_1_17)
    show ?thesis
      unfolding dispatch_def i0 s17
      by (simp add: beacon bind_panic_Inr spec_dispatch_def opcode_defs)
  next
    case added
    then have "3 \<le> length buf"
      using assms by (simp add: frame_size_def)
    then have s3: "subslice buf 1 3 = Inr [buf ! 1, buf ! 2]"
      by (rule subslice_1_3)
    show ?thesis
      unfolding dispatch_def i0 s3
      by (simp add: added bind_panic_Inr Uint16_le16 spec_dispatch_def opcode_defs)
  next
    case state
    then have len: "4 \<le> length buf"
      using assms by (simp add: frame_size_def)
    then have s3: "subslice buf 1 3 = Inr [buf ! 1, buf ! 2]"
      by (intro subslice_1_3) simp
    have i3: "index buf 3 = Inr (buf ! 3)"
      using len by (simp add: index_def)
    show ?thesis
      unfolding dispatch_def i0 s3 i3
      by (simp add: state bind_panic_Inr Uint16_le16 spec_dispatch_def opcode_defs)
  next
    case event
    then have "3 \<le> length buf"
      using assms by (simp add: frame_size_def)
    then have s3: "subslice buf 1 3 = Inr [buf ! 1, buf ! 2]"
      by (rule subslice_1_3)
    show ?thesis
      unfolding dispatch_def i0 s3
      by (simp add: event bind_panic_Inr Uint16_le16 spec_dispatch_def opcode_defs)
  next
    case other
    then show ?thesis
      unfolding dispatch_def i0
      by (simp add: bind_panic_Inr spec_dispatch_def opcode_defs)
  qed
qed

lemma Read_frames:
  "\<forall>r \<in> set rs. frame_size (receive mps r ! 0) \<le> mps \<Longrightarrow>
   Read mps rs tr = Listening (tr @ concat (map (\<lambda>r. spec_dispatch (receive mps r)) rs))"
  by (induction rs arbitrary: tr) (simp_all add: Read_iter_def dispatch_frame length_receive)

lemma spec_dispatch_le_1: "length (spec_dispatch buf) \<le> 1"
  by (simp add: spec_dispatch_def)

text \<open>
  C5. On every buffer whose byte 0 is \<open>0x20\<close> and whose bytes 1 and 2 are \<open>0x0A\<close> and
  \<open>0x00\<close>, whatever follows them, the loop body calls \<open>onEvent\<close> with address 10 and
  makes no other call.
\<close>

theorem Event_dispatch:
  "dispatch (0x20 # 0x0A # 0x00 # rest) tr = Inr (tr @ [OnEvent 10])"
  by (simp add: dispatch_def index_def subslice_def Uint16_def bind_panic_Inr opcode_defs)

lemma dispatch_unhandled:
  assumes "buf \<noteq> []"
    and "buf ! 0 \<notin>
      {OpSetupStatus, OpAddKeyStatus, OpUnprovisionedBeacon, OpNodeAdded, OpState, OpEvent}"
  shows "dispatch buf tr = Inr tr"
proof -
  have "index buf 0 = Inr (buf ! 0)"
    using assms(1) by (simp add: index_def)
  then show ?thesis
    using assms(2) unfolding dispatch_def by (simp add: bind_panic_Inr)
qed

text \<open>
  C6. On every buffer whose byte 0 is none of the known opcodes, the loop body calls no
  handler and ends without a panic, and the loop goes on with the next read: the run on
  the reads that follow is the same as if the frame had not come.
\<close>

theorem unknown_opcode_ignored:
  assumes "buf \<noteq> []" and "buf ! 0 \<notin> set known_opcodes"
  shows "dispatch buf tr = Inr tr
     \<and> (receive mps r = buf \<longrightarrow> Read mps (r # rs) tr = Read mps rs tr)"
proof -
  have "dispatch buf tr = Inr tr"
    using assms by (intro dispatch_unhandled) (auto simp: known_opcodes_def)
  then show ?thesis
    by (auto simp: Read_iter_def)
qed

theorem unknown_opcode_ignored_witness:
  "[0xFF, 0x01 :: byte] \<noteq> []
   \<and> [0xFF, 0x01 :: byte] ! 0 \<notin> set known_opcodes
   \<and> dispatch [0xFF, 0x01] [] = Inr []
   \<and> receive 2 \<lparr>rx_data = [0xFF, 0x01], rx_err = None\<rparr> = [0xFF, 0x01]
   \<and> Read 2 [\<lparr>rx_data = [0xFF, 0x01], rx_err = None\<rparr>] [] = Listening []"
proof -
  have a: "[0xFF, 0x01 :: byte] \<noteq> []"
    by simp
  have b: "[0xFF, 0x01 :: byte] ! 0 \<notin> set known_opcodes"
    by (simp add: known_opcodes_def opcode_defs)
  have c: "receive 2 \<lparr>rx_data = [0xFF, 0x01], rx_err = None\<rparr> = [0xFF, 0x01]"
    by (simp add: receive_def epIn_Read_def)
  show ?thesis
    using unknown_opcode_ignored [OF a b, of "[]" 2
        "\<lparr>rx_data = [0xFF, 0x01], rx_err = None\<rparr>" "[]"] a b c
    by simp
qed

subsection \<open>The loop\<close>

text \<open>
  With a \<open>MaxPacketSize\<close> of 16, a beacon frame of 17 bytes does not fit the receive
  buffer: \<open>buf[1:17]\<close> panics, no handler is called for the frame, and the event frame
  that arrived after it is never processed.
\<close>

theorem short_buffer_counterexample:
  "Read_iter 16
     \<lparr>rx_data = [0x04, 0x19, 0x8a, 0x1d, 0x0d, 0x7e, 0xd1, 0, 0, 0, 0, 0, 0, 0, 0, 0, 0],
      rx_err = None\<rparr> []
     = Inl SliceBoundsOutOfRange
   \<and> Read 16
       [\<lparr>rx_data = [0x04, 0x19, 0x8a, 0x1d, 0x0d, 0x7e, 0xd1, 0, 0, 0, 0, 0, 0, 0, 0, 0, 0],
         rx_err = None\<rparr>,
        \<lparr>rx_data = [0x20, 0x0A, 0x00], rx_err = None\<rparr>] []
     = Panicked SliceBoundsOutOfRange"
  by (simp add: Read_iter_def receive_def epIn_Read_def dispatch_def index_def subslice_def
      bind_panic_def opcode_defs)

text \<open>
  C7, as the code has it. When \<open>MaxPacketSize\<close> is at least 17, and more generally when
  every received buffer holds the whole frame its opcode byte announces, each iteration
  has exactly the outcome the dispatch table assigns to its frame, which is the one
  handler call of the frame's opcode with the fields of the frame, or nothing for any
  other opcode, and never two calls; the calls of a run are those of its frames in the
  order the frames arrived.
\<close>

theorem one_outcome_per_frame_in_order:
  "(17 \<le> mps \<or> (\<forall>r \<in> set rs. frame_size (receive mps r ! 0) \<le> mps) \<longrightarrow>
      (\<forall>r \<in> set rs. \<forall>t. Read_iter mps r t = Inr (t @ spec_dispatch (receive mps r)))
      \<and> Read mps rs tr = Listening (tr @ concat (map (\<lambda>r. spec_dispatch (receive mps r)) rs)))
   \<and> (\<forall>r. length (spec_dispatch (receive mps r)) \<le> 1)"
proof (intro conjI impI ballI allI)
  assume pre: "17 \<le> mps \<or> (\<forall>r \<in> set rs. frame_size (receive mps r ! 0) \<le> mps)"
  have fits: "\<forall>r \<in> set rs. frame_size (receive mps r ! 0) \<le> mps"
  proof
    fix r
    assume "r \<in> set rs"
    then show "frame_size (receive mps r ! 0) \<le> mps"
      using pre frame_size_le_17 [of "receive mps r ! 0"] by auto
  qed
  show "Read mps rs tr = Listening (tr @ concat (map (\<lambda>r. spec_dispatch (receive mps r)) rs))"
    using fits by (rule Read_frames)
  fix r t
  assume "r \<in> set rs"
  then have "frame_size (receive mps r ! 0) \<le> length (receive mps r)"
    using fits by (simp add: length_receive)
  then show "Read_iter mps r t = Inr (t @ spec_dispatch (receive mps r))"
    unfolding Read_iter_def by (rule dispatch_frame)
next
  fix r
  show "length (spec_dispatch (receive mps r)) \<le> 1"
    by (rule spec_dispatch_le_1)
qed

theorem one_outcome_per_frame_in_order_witness:
  "(17 :: nat) \<le> 17
   \<and> Read_iter 17
       \<lparr>rx_data = [0x04, 0x19, 0x8a, 0x1d, 0x0d, 0x7e, 0xd1, 0, 0, 0, 0, 0, 0, 0, 0, 0, 0],
        rx_err = None\<rparr> []
     = Inr [OnUnprovisionedBeacon [0x19, 0x8a, 0x1d, 0x0d, 0x7e, 0xd1, 0, 0, 0, 0, 0, 0, 0, 0, 0, 0]]
   \<and> Read 17
       [\<lparr>rx_data = [0x04, 0x19, 0x8a, 0x1d, 0x0d, 0x7e, 0xd1, 0, 0, 0, 0, 0, 0, 0, 0, 0, 0],
         rx_err = None\<rparr>,
        \<lparr>rx_data = [0x20, 0x0A, 0x00], rx_err = None\<rparr>] []
     = Listening
         [OnUnprovisionedBeacon [0x19, 0x8a, 0x1d, 0x0d, 0x7e, 0xd1, 0, 0, 0, 0, 0, 0, 0, 0, 0, 0],
          OnEvent 10]
   \<and> frame_size (receive 8 \<lparr>rx_data = [0x20, 0x0A, 0x00], rx_err = None\<rparr> ! 0) \<le> 8
   \<and> frame_size (receive 8 \<lparr>rx_data = [0x08, 0x01], rx_err = None\<rparr> ! 0) \<le> 8
   \<and> frame_size (receive 8 \<lparr>rx_data = [0x13, 0x0A, 0x00, 0x01], rx_err = None\<rparr> ! 0) \<le> 8
   \<and> frame_size (receive 8 \<lparr>rx_data = [0x01], rx_err = None\<rparr> ! 0) \<le> 8
   \<and> Read_iter 8 \<lparr>rx_data = [0x13, 0x0A, 0x00, 0x01], rx_err = None\<rparr> [] = Inr [OnState 10 1]
   \<and> Read 8 [\<lparr>rx_data = [0x20, 0x0A, 0x00], rx_err = None\<rparr>,
              \<lparr>rx_data = [0x08, 0x01], rx_err = None\<rparr>,
              \<lparr>rx_data = [0x13, 0x0A, 0x00, 0x01], rx_err = None\<rparr>,
              \<lparr>rx_data = [0x01], rx_err = None\<rparr>] []
       = Listening [OnEvent 10, OnState 10 1, OnSetupStatus]"
  using
    one_outcome_per_frame_in_order [of 17
      "[\<lparr>rx_data = [0x04, 0x19, 0x8a, 0x1d, 0x0d, 0x7e, 0xd1, 0, 0, 0, 0, 0, 0, 0, 0, 0, 0],
          rx_err = None\<rparr>,
        \<lparr>rx_data = [0x20, 0x0A, 0x00], rx_err = None\<rparr>]" "[]"]
    one_outcome_per_frame_in_order [of 8
      "[\<lparr>rx_data = [0x20, 0x0A, 0x00], rx_err = None\<rparr>,
        \<lparr>rx_data = [0x08, 0x01], rx_err = None\<rparr>,
        \<lparr>rx_data = [0x13, 0x0A, 0x00, 0x01], rx_err = None\<rparr>,
        \<lparr>rx_data = [0x01], rx_err = None\<rparr>]" "[]"]
  by (simp add: receive_def epIn_Read_def spec_dispatch_def le16_def frame_size_def)

text \<open>
  C9. On every buffer of at least 17 bytes, whatever its contents, each of the accesses
  \<open>buf[0]\<close>, \<open>buf[1:3]\<close> (and the \<open>Uint16\<close> of it), \<open>buf[1:17]\<close> and \<open>buf[3]\<close>
  is in bounds and the loop body ends without a panic. The receive buffer has the length
  \<open>MaxPacketSize\<close>, so when that is at least 17 every iteration ends without a panic,
  whatever the transport delivers, and so does every run of the loop.
\<close>

theorem accesses_in_bounds:
  "(17 \<le> length buf \<longrightarrow>
      index buf 0 = Inr (buf ! 0)
      \<and> subslice buf 1 3 = Inr [buf ! 1, buf ! 2]
      \<and> (\<exists>v. Uint16 [buf ! 1, buf ! 2] = Inr v)
      \<and> subslice buf 1 17 = Inr (take 16 (drop 1 buf))
      \<and> index buf 3 = Inr (buf ! 3)
      \<and> (\<exists>tr'. dispatch buf tr = Inr tr'))
   \<and> (17 \<le> mps \<longrightarrow>
      length (receive mps r) = mps
      \<and> (\<exists>tr'. Read_iter mps r tr = Inr tr')
      \<and> (\<exists>tr'. Read mps rs tr = Listening tr'))"
proof (intro conjI impI)
  assume len: "17 \<le> length buf"
  show "index buf 0 = Inr (buf ! 0)" and "index buf 3 = Inr (buf ! 3)"
    using len by (auto simp: index_def)
  show "subslice buf 1 3 = Inr [buf ! 1, buf ! 2]"
    by (rule subslice_1_3) (use len in simp)
  show "subslice buf 1 17 = Inr (take 16 (drop 1 buf))"
    by (rule subslice_1_17) (rule len)
  show "\<exists>v. Uint16 [buf ! 1, buf ! 2] = Inr v"
    by (simp add: Uint16_le16)
  have "frame_size (buf ! 0) \<le> length buf"
    using len frame_size_le_17 [of "buf ! 0"] by linarith
  then show "\<exists>tr'. dispatch buf tr = Inr tr'"
    by (simp add: dispatch_frame)
next
  assume mps: "17 \<le> mps"
  have fits: "frame_size op \<le> mps" for op
    using mps frame_size_le_17 [of op] by linarith
  show "length (receive mps r) = mps"
    by (rule length_receive)
  show "\<exists>tr'. Read_iter mps r tr = Inr tr'"
    by (simp add: Read_iter_def dispatch_frame length_receive fits)
  show "\<exists>tr'. Read mps rs tr = Listening tr'"
    by (simp add: Read_frames fits)
qed

theorem accesses_in_bounds_witness:
  "17 \<le> length (0x04 # replicate 16 (0x00 :: byte))
   \<and> subslice (0x04 # replicate 16 0x00) 1 17 = Inr (replicate 16 0x00)
   \<and> (\<exists>tr'. dispatch (0x04 # replicate 16 0x00) [] = Inr tr')
   \<and> (17 :: nat) \<le> 17
   \<and> length (receive 17 \<lparr>rx_data = [0x04], rx_err = None\<rparr>) = 17
   \<and> (\<exists>tr'. Read_iter 17 \<lparr>rx_data = [0x04], rx_err = None\<rparr> [] = Inr tr')
   \<and> (\<exists>tr'. Read 17 [\<lparr>rx_data = [0x04], rx_err = None\<rparr>] [] = Listening tr')"
  using accesses_in_bounds [of "0x04 # replicate 16 0x00" "[]" 17
      "\<lparr>rx_data = [0x04], rx_err = None\<rparr>"
      "[\<lparr>rx_data = [0x04], rx_err = None\<rparr>]"]
  by simp

subsection \<open>Read failures\<close>






subsection \<open>Round trip\<close>

lemma subslice_field: "subslice (op # le_bytes v @ pad) 1 3 = Inr (le_bytes v)"
  by (simp add: subslice_def le_bytes_def)

lemma index_head: "index (op # rest) 0 = Inr op"
  by (simp add: index_def)

lemma index_state: "index (op # le_bytes v @ state # pad) 3 = Inr state"
  by (simp add: index_def le_bytes_def)

lemma subslice_uuid: "length uuid = 16 \<Longrightarrow> subslice (op # uuid @ pad) 1 17 = Inr uuid"
  by (simp add: subslice_def)

lemma dispatch_wire_frame:
  assumes "valid_fields c"
  shows "dispatch (wire_frame c @ pad) tr = Inr (tr @ [c])"
proof (cases c)
  case OnSetupStatus
  then show ?thesis
    by (simp add: dispatch_def index_head bind_panic_Inr opcode_defs)
next
  case (OnAddKeyStatus v)
  then have frame: "wire_frame c @ pad = 0x03 # le_bytes v @ pad"
    by simp
  show ?thesis
    unfolding frame dispatch_def index_head subslice_field Uint16_le_bytes
    by (simp add: bind_panic_Inr Uint16_le_bytes opcode_defs OnAddKeyStatus)
next
  case (OnUnprovisionedBeacon uuid)
  then have frame: "wire_frame c @ pad = 0x04 # uuid @ pad" and len: "length uuid = 16"
    using assms by simp_all
  show ?thesis
    unfolding frame dispatch_def index_head subslice_uuid [OF len]
    by (simp add: bind_panic_Inr opcode_defs OnUnprovisionedBeacon)
next
  case (OnNodeAdded v)
  then have frame: "wire_frame c @ pad = 0x06 # le_bytes v @ pad"
    by simp
  show ?thesis
    unfolding frame dispatch_def index_head subslice_field Uint16_le_bytes
    by (simp add: bind_panic_Inr Uint16_le_bytes opcode_defs OnNodeAdded)
next
  case (OnState v st)
  then have frame: "wire_frame c @ pad = 0x13 # le_bytes v @ st # pad"
    by simp
  show ?thesis
    unfolding frame dispatch_def index_head index_state subslice_field Uint16_le_bytes
    by (simp add: bind_panic_Inr Uint16_le_bytes opcode_defs OnState)
next
  case (OnEvent v)
  then have frame: "wire_frame c @ pad = 0x20 # le_bytes v @ pad"
    by simp
  show ?thesis
    unfolding frame dispatch_def index_head subslice_field Uint16_le_bytes
    by (simp add: bind_panic_Inr Uint16_le_bytes opcode_defs OnEvent)
qed

text \<open>
  The frame that \<open>AddKey(5)\<close> encodes is \<open>[0x02, 0x05, 0x00]\<close>; the dispatcher, the only
  decoder of the driver, gives no field back for it: it calls no handler.
\<close>

theorem round_trip_counterexample:
  "AddKey 5 \<lparr>wr_script = (\<lambda>k. None), wr_count = 0, io_log = []\<rparr>
     = Inr (None, \<lparr>wr_script = (\<lambda>k. None), wr_count = 1,
                   io_log = [Written [0x02, 0x05, 0x00]]\<rparr>)
   \<and> Read_iter 64 \<lparr>rx_data = [0x02, 0x05, 0x00], rx_err = None\<rparr> [] = Inr []"
  by (simp add: AddKey_def toByteSlice_bytes WriteData_def epOut_Write_def
      Read_iter_def receive_def epIn_Read_def dispatch_def index_def bind_panic_Inr opcode_defs)

text \<open>
  C1, as the code has it. The round trip holds in the direction the driver decodes: for
  each of the six inbound opcodes that the dispatcher handles and all valid fields, the
  dispatch of a buffer that starts with the frame of the wire table (followed by any
  bytes) calls the handler of the opcode with the same fields. A 16-bit field is written
  by \<open>toByteSlice\<close> and read by \<open>Uint16\<close> little-endian, and the two are inverse to
  each other both ways.
\<close>

theorem inbound_round_trip:
  "toByteSlice v = Inr (le_bytes v)
   \<and> Uint16 (le_bytes v) = Inr v
   \<and> bind_panic (Uint16 [b0, b1]) toByteSlice = Inr [b0, b1]
   \<and> (valid_fields c \<longrightarrow> dispatch (wire_frame c @ pad) tr = Inr (tr @ [c]))"
proof (intro conjI impI)
  show "toByteSlice v = Inr (le_bytes v)"
    by (rule toByteSlice_le_bytes)
  show "Uint16 (le_bytes v) = Inr v"
    by (rule Uint16_le_bytes)
  show "bind_panic (Uint16 [b0, b1]) toByteSlice = Inr [b0, b1]"
    by (rule toByteSlice_Uint16)
  show "dispatch (wire_frame c @ pad) tr = Inr (tr @ [c])" if "valid_fields c"
    using that by (rule dispatch_wire_frame)
qed

theorem inbound_round_trip_witness:
  "valid_fields
     (OnUnprovisionedBeacon [0x19, 0x8a, 0x1d, 0x0d, 0x7e, 0xd1, 0, 0, 0, 0, 0, 0, 0, 0, 0, 0])
   \<and> dispatch
       (0x04 # [0x19, 0x8a, 0x1d, 0x0d, 0x7e, 0xd1, 0, 0, 0, 0, 0, 0, 0, 0, 0, 0] @ [0, 0]) []
     = Inr [OnUnprovisionedBeacon
              [0x19, 0x8a, 0x1d, 0x0d, 0x7e, 0xd1, 0, 0, 0, 0, 0, 0, 0, 0, 0, 0]]
   \<and> toByteSlice 0x1234 = Inr [0x34, 0x12]
   \<and> Uint16 [0x34, 0x12] = Inr 0x1234"
  using inbound_round_trip [of "0x1234" 0 0
      "OnUnprovisionedBeacon [0x19, 0x8a, 0x1d, 0x0d, 0x7e, 0xd1, 0, 0, 0, 0, 0, 0, 0, 0, 0, 0]"
      "[0, 0]" "[]"]
  by (simp add: le_bytes_def)

end
